theory Spec2Isabelle
  imports Main "HOL-Library.Word"
begin

section \<open>Python values: text, bytes, exceptions\<close>

text \<open>
  A Python \<open>str\<close> is a sequence of Unicode code points and a \<open>bytes\<close> object a sequence
  of octets. \<open>lit\<close> turns an ASCII literal into a \<open>str\<close>, \<open>blit\<close> into \<open>bytes\<close>.
\<close>

type_synonym codepoint = nat
type_synonym str = "codepoint list"
type_synonym bytes = "8 word list"

datatype exn = OSError | UnicodeDecodeError | UnicodeEncodeError | IndexError | ValueError

definition lit :: "string \<Rightarrow> str" where
  "lit s = map of_char s"

definition blit :: "string \<Rightarrow> bytes" where
  "blit s = map of_char s"

definition sep :: str where
  "sep = lit ''/''"

definition CRLF :: str where
  "CRLF = [13, 10]"

subsection \<open>\<open>bytes.decode('utf-8')\<close> and \<open>str.encode('utf-8')\<close>\<close>

text \<open>
  Strict UTF-8: a lead byte fixes the number of continuation bytes and the range of the
  first of them (no overlong forms, no surrogates, nothing above U+10FFFF). Any other byte
  sequence, a truncated one included, raises \<open>UnicodeDecodeError\<close>: \<open>None\<close>.
\<close>

definition cont :: "nat \<Rightarrow> nat \<Rightarrow> nat \<Rightarrow> bool" where
  "cont lo hi c = (lo \<le> c \<and> c \<le> hi)"

fun utf8_decode :: "bytes \<Rightarrow> str option" where
  "utf8_decode [] = Some []"
| "utf8_decode (w # ws) =
    (let b = unat w in
     if b < 0x80 then map_option ((#) b) (utf8_decode ws)
     else if 0xC2 \<le> b \<and> b \<le> 0xDF then
       (case ws of
          w1 # r \<Rightarrow>
            (let c1 = unat w1 in
             if cont 0x80 0xBF c1
             then map_option ((#) ((b - 0xC0) * 64 + (c1 - 0x80))) (utf8_decode r)
             else None)
        | _ \<Rightarrow> None)
     else if 0xE0 \<le> b \<and> b \<le> 0xEF then
       (case ws of
          w1 # w2 # r \<Rightarrow>
            (let c1 = unat w1; c2 = unat w2 in
             if cont (if b = 0xE0 then 0xA0 else 0x80) (if b = 0xED then 0x9F else 0xBF) c1
                \<and> cont 0x80 0xBF c2
             then map_option
                    ((#) ((b - 0xE0) * 4096 + (c1 - 0x80) * 64 + (c2 - 0x80)))
                    (utf8_decode r)
             else None)
        | _ \<Rightarrow> None)
     else if 0xF0 \<le> b \<and> b \<le> 0xF4 then
       (case ws of
          w1 # w2 # w3 # r \<Rightarrow>
            (let c1 = unat w1; c2 = unat w2; c3 = unat w3 in
             if cont (if b = 0xF0 then 0x90 else 0x80) (if b = 0xF4 then 0x8F else 0xBF) c1
                \<and> cont 0x80 0xBF c2 \<and> cont 0x80 0xBF c3
             then map_option
                    ((#) ((b - 0xF0) * 262144 + (c1 - 0x80) * 4096 + (c2 - 0x80) * 64
                          + (c3 - 0x80)))
                    (utf8_decode r)
             else None)
        | _ \<Rightarrow> None)
     else None)"

text \<open>
  Encoding raises \<open>UnicodeEncodeError\<close> on a lone surrogate. A Python \<open>str\<close> holds no code
  point above U+10FFFF; the model's type does, and encoding refuses it too.
\<close>

definition encode_codepoint :: "codepoint \<Rightarrow> bytes option" where
  "encode_codepoint cp =
    (if cp < 0x80 then Some [of_nat cp]
     else if cp < 0x800 then Some [of_nat (0xC0 + cp div 64), of_nat (0x80 + cp mod 64)]
     else if cp < 0x10000 then
       (if 0xD800 \<le> cp \<and> cp \<le> 0xDFFF then None
        else Some [of_nat (0xE0 + cp div 4096), of_nat (0x80 + (cp div 64) mod 64),
                   of_nat (0x80 + cp mod 64)])
     else if cp < 0x110000 then
       Some [of_nat (0xF0 + cp div 262144), of_nat (0x80 + (cp div 4096) mod 64),
             of_nat (0x80 + (cp div 64) mod 64), of_nat (0x80 + cp mod 64)]
     else None)"

fun utf8_encode :: "str \<Rightarrow> exn + bytes" where
  "utf8_encode [] = Inr []"
| "utf8_encode (cp # cps) =
    (case encode_codepoint cp of
       None \<Rightarrow> Inl UnicodeEncodeError
     | Some bs \<Rightarrow>
        (case utf8_encode cps of Inl e \<Rightarrow> Inl e | Inr rest \<Rightarrow> Inr (bs @ rest)))"

subsection \<open>Formatting integers: \<open>f"{n}"\<close>\<close>

fun str_nat :: "nat \<Rightarrow> str" where
  "str_nat n = (if n < 10 then [48 + n] else str_nat (n div 10) @ [48 + n mod 10])"

declare str_nat.simps [simp del]

definition str_int :: "int \<Rightarrow> str" where
  "str_int i = (if i < 0 then 45 # str_nat (nat (- i)) else str_nat (nat i))"

subsection \<open>\<open>str\<close> methods\<close>

fun startswith :: "str \<Rightarrow> str \<Rightarrow> bool" where
  "startswith s [] = True"
| "startswith [] (p # ps) = False"
| "startswith (c # cs) (p # ps) = (c = p \<and> startswith cs ps)"

definition endswith :: "str \<Rightarrow> str \<Rightarrow> bool" where
  "endswith s p = startswith (rev s) (rev p)"

text \<open>\<open>s.lstrip('/')\<close>: drop every leading character that is in the argument.\<close>

fun lstrip :: "str \<Rightarrow> str \<Rightarrow> str" where
  "lstrip [] chars = []"
| "lstrip (c # cs) chars = (if c \<in> set chars then lstrip cs chars else c # cs)"

text \<open>
  \<open>s.split(sep)\<close> with a one-character separator: the fields between the separators, at
  least one, empty ones kept.
\<close>

fun split_at :: "codepoint \<Rightarrow> str \<Rightarrow> str list" where
  "split_at d [] = [[]]"
| "split_at d (c # cs) =
    (if c = d then [] # split_at d cs
     else (case split_at d cs of [] \<Rightarrow> [[c]] | w # ws \<Rightarrow> (c # w) # ws))"

text \<open>\<open>sep.join(xs)\<close>.\<close>

fun join :: "str \<Rightarrow> str list \<Rightarrow> str" where
  "join s [] = []"
| "join s [x] = x"
| "join s (x # y # ys) = x @ s @ join s (y # ys)"

text \<open>
  The characters \<open>str.split()\<close> treats as whitespace and the ones \<open>str.splitlines()\<close>
  treats as line boundaries (CPython's Unicode tables).
\<close>

definition is_space :: "codepoint \<Rightarrow> bool" where
  "is_space c =
    ((0x09 \<le> c \<and> c \<le> 0x0D) \<or> (0x1C \<le> c \<and> c \<le> 0x20) \<or> c = 0x85 \<or> c = 0xA0
     \<or> c = 0x1680 \<or> (0x2000 \<le> c \<and> c \<le> 0x200A) \<or> c = 0x2028 \<or> c = 0x2029
     \<or> c = 0x202F \<or> c = 0x205F \<or> c = 0x3000)"

definition is_linebreak :: "codepoint \<Rightarrow> bool" where
  "is_linebreak c =
    ((0x0A \<le> c \<and> c \<le> 0x0D) \<or> (0x1C \<le> c \<and> c \<le> 0x1E) \<or> c = 0x85
     \<or> c = 0x2028 \<or> c = 0x2029)"

text \<open>
  \<open>s.splitlines()\<close>: lines without their boundaries, CR LF counting as one boundary, and
  no empty last line after a final boundary. The first argument is the line being read.
\<close>

fun splitlines_from :: "str \<Rightarrow> str \<Rightarrow> str list" where
  "splitlines_from cur [] = (if cur = [] then [] else [cur])"
| "splitlines_from cur [c] = (if is_linebreak c then [cur] else [cur @ [c]])"
| "splitlines_from cur (c # d # cs) =
    (if c = 13 \<and> d = 10 then cur # splitlines_from [] cs
     else if is_linebreak c then cur # splitlines_from [] (d # cs)
     else splitlines_from (cur @ [c]) (d # cs))"

definition splitlines :: "str \<Rightarrow> str list" where
  "splitlines s = splitlines_from [] s"

text \<open>
  \<open>s.split()\<close>: the maximal runs of characters that are not whitespace. The first
  argument is the run being read.
\<close>

fun split_from :: "str \<Rightarrow> str \<Rightarrow> str list" where
  "split_from cur [] = (if cur = [] then [] else [cur])"
| "split_from cur (c # cs) =
    (if is_space c then (if cur = [] then split_from [] cs else cur # split_from [] cs)
     else split_from (cur @ [c]) cs)"

definition split :: "str \<Rightarrow> str list" where
  "split s = split_from [] s"

text \<open>
  \<open>s.lower()\<close> for text that is ASCII. For other text the interpreter's Unicode tables
  decide, and \<open>str.lower\<close> is then a parameter of the model.
\<close>

definition ascii_lower :: "str \<Rightarrow> str" where
  "ascii_lower s = map (\<lambda>c. if 65 \<le> c \<and> c \<le> 90 then c + 32 else c) s"

text \<open>
  \<open>s.split(c, 1)[0]\<close> and \<open>s.partition(c)[0]\<close>: the text before the first \<open>c\<close>, all of
  \<open>s\<close> when it has none; this is \<open>s[:s.find(c)]\<close> when \<open>c\<close> occurs. And
  \<open>s.partition(c)[2]\<close>: the text after the first \<open>c\<close>, empty when there is none; this is
  \<open>s[s.find(c) + 1:]\<close> when \<open>c\<close> occurs.
\<close>

definition upto_first :: "codepoint \<Rightarrow> str \<Rightarrow> str" where
  "upto_first c s = takeWhile (\<lambda>x. x \<noteq> c) s"

definition past_first :: "codepoint \<Rightarrow> str \<Rightarrow> str" where
  "past_first c s = drop 1 (dropWhile (\<lambda>x. x \<noteq> c) s)"

section \<open>Library functions the server calls\<close>

subsection \<open>\<open>posixpath\<close>\<close>

text \<open>Code point 47 is the slash, 46 the dot.\<close>

definition os_path_isabs :: "str \<Rightarrow> bool" where
  "os_path_isabs s = startswith s sep"

text \<open>\<open>os.path.join(a, b)\<close> for two arguments.\<close>

definition os_path_join :: "str \<Rightarrow> str \<Rightarrow> str" where
  "os_path_join a b =
    (if startswith b sep then b
     else if a = [] \<or> endswith a sep then a @ b
     else a @ sep @ b)"

text \<open>
  The loop of \<open>normpath\<close> over the components: \<open>initial_slashes\<close>, the list
  \<open>new_comps\<close> built so far, the components left. \<open>new_comps.append\<close> adds at the end,
  \<open>new_comps.pop()\<close> removes the last.
\<close>

fun normpath_comps :: "nat \<Rightarrow> str list \<Rightarrow> str list \<Rightarrow> str list" where
  "normpath_comps initial_slashes new_comps [] = new_comps"
| "normpath_comps initial_slashes new_comps (cmp # comps) =
    (if cmp = [] \<or> cmp = lit ''.'' then normpath_comps initial_slashes new_comps comps
     else if cmp \<noteq> lit ''..'' then
       normpath_comps initial_slashes (new_comps @ [cmp]) comps
     else if initial_slashes = 0 \<and> new_comps = [] then
       normpath_comps initial_slashes (new_comps @ [cmp]) comps
     else if new_comps \<noteq> [] \<and> last new_comps = lit ''..'' then
       normpath_comps initial_slashes (new_comps @ [cmp]) comps
     else if new_comps \<noteq> [] then normpath_comps initial_slashes (butlast new_comps) comps
     else normpath_comps initial_slashes new_comps comps)"

definition os_path_normpath :: "str \<Rightarrow> str" where
  "os_path_normpath path =
    (if path = [] then lit ''.''
     else
       let initial_slashes =
             (if startswith path sep then
                (if startswith path (sep @ sep) \<and> \<not> startswith path (sep @ sep @ sep)
                 then 2 else 1)
              else 0);
           comps = normpath_comps initial_slashes [] (split_at 47 path);
           path' = concat (replicate initial_slashes sep) @ join sep comps
       in if path' = [] then lit ''.'' else path')"

text \<open>\<open>os.path.abspath(path)\<close>; the first argument is what \<open>os.getcwd()\<close> returns.\<close>

definition os_path_abspath :: "str \<Rightarrow> str \<Rightarrow> str" where
  "os_path_abspath cwd path =
    os_path_normpath (if os_path_isabs path then path else os_path_join cwd path)"

text \<open>\<open>p.rfind(c)\<close>: the last index of \<open>c\<close>, or \<open>-1\<close>.\<close>

fun rfind_from :: "codepoint \<Rightarrow> int \<Rightarrow> int \<Rightarrow> str \<Rightarrow> int" where
  "rfind_from c i found [] = found"
| "rfind_from c i found (x # xs) = rfind_from c (i + 1) (if x = c then i else found) xs"

definition rfind :: "str \<Rightarrow> codepoint \<Rightarrow> int" where
  "rfind p c = rfind_from c 0 (- 1) p"

text \<open>
  The loop of \<open>splitext\<close> that skips the leading dots of the file name: whether it meets
  a character that is not a dot before it reaches the last dot.
\<close>

fun skip_leading_dots :: "str \<Rightarrow> bool" where
  "skip_leading_dots [] = False"
| "skip_leading_dots (c # cs) = (if c \<noteq> 46 then True else skip_leading_dots cs)"

definition posixpath_splitext :: "str \<Rightarrow> str \<times> str" where
  "posixpath_splitext p =
    (let sepIndex = rfind p 47; dotIndex = rfind p 46 in
     if dotIndex > sepIndex
        \<and> skip_leading_dots (take (nat (dotIndex - (sepIndex + 1))) (drop (nat (sepIndex + 1)) p))
     then (take (nat dotIndex) p, drop (nat dotIndex) p)
     else (p, []))"

subsection \<open>\<open>urllib.parse\<close>\<close>

text \<open>
  \<open>urlsplit\<close> and \<open>urlparse\<close> of CPython 3.11, as far as \<open>guess_type\<close> reads their
  result: the scheme and the path, or the \<open>ValueError\<close> they raise. Code point 58 is the
  colon, 35 the hash, 63 the question mark, 59 the semicolon, 64 the at sign, 91 and 93 the
  square brackets.
\<close>

definition is_ascii_alpha :: "codepoint \<Rightarrow> bool" where
  "is_ascii_alpha c = ((65 \<le> c \<and> c \<le> 90) \<or> (97 \<le> c \<and> c \<le> 122))"

definition is_scheme_char :: "codepoint \<Rightarrow> bool" where
  "is_scheme_char c =
    (is_ascii_alpha c \<or> (48 \<le> c \<and> c \<le> 57) \<or> c = 43 \<or> c = 45 \<or> c = 46)"

text \<open>
  \<open>url.lstrip(_WHATWG_C0_CONTROL_OR_SPACE)\<close>, the code points up to 32, and then the
  three \<open>url.replace(b, "")\<close> that take out every tab, CR and LF.
\<close>

definition strip_unsafe :: "str \<Rightarrow> str" where
  "strip_unsafe url =
    filter (\<lambda>c. c \<noteq> 9 \<and> c \<noteq> 13 \<and> c \<noteq> 10) (dropWhile (\<lambda>c. c \<le> 32) url)"

text \<open>
  The scheme: the text before the first colon, lowered, when that text is not empty,
  starts with an ASCII letter and holds scheme characters only. The result is the scheme
  and the rest of the URL.
\<close>

definition split_scheme :: "str \<Rightarrow> str \<times> str" where
  "split_scheme url =
    (if 58 \<in> set url \<and> upto_first 58 url \<noteq> [] \<and> is_ascii_alpha (hd url)
        \<and> list_all is_scheme_char (upto_first 58 url)
     then (ascii_lower (upto_first 58 url), past_first 58 url)
     else ([], url))"

text \<open>
  \<open>_splitnetloc(url, 2)\<close>: the network location starts after the two slashes and ends
  before the first slash, question mark or hash.
\<close>

definition splitnetloc :: "str \<Rightarrow> str \<times> str" where
  "splitnetloc url =
    (takeWhile (\<lambda>c. c \<noteq> 47 \<and> c \<noteq> 63 \<and> c \<noteq> 35) (drop 2 url),
     dropWhile (\<lambda>c. c \<noteq> 47 \<and> c \<noteq> 63 \<and> c \<noteq> 35) (drop 2 url))"

text \<open>
  \<open>_checknetloc\<close>; its first argument is \<open>unicodedata.normalize('NFKC', _)\<close>, whose
  tables are the interpreter's.
\<close>

definition checknetloc :: "(str \<Rightarrow> str) \<Rightarrow> str \<Rightarrow> exn + unit" where
  "checknetloc nfkc_form netloc =
    (if netloc = [] \<or> list_all (\<lambda>c. c < 128) netloc then Inr ()
     else
       let n = filter (\<lambda>c. c \<noteq> 64 \<and> c \<noteq> 58 \<and> c \<noteq> 35 \<and> c \<noteq> 63) netloc;
           netloc2 = nfkc_form n
       in if n = netloc2 then Inr ()
          else if list_ex (\<lambda>c. c = 47 \<or> c = 63 \<or> c = 35 \<or> c = 64 \<or> c = 58) netloc2
          then Inl ValueError
          else Inr ())"

text \<open>
  \<open>urlsplit(url)\<close>: the scheme and the path, without the query and the fragment. The
  first argument says of a bracketed host whether \<open>_check_bracketed_host\<close> returns for it
  (it raises \<open>ValueError\<close> otherwise); the check parses IP addresses and is the library's.
\<close>

definition urlsplit ::
  "(str \<Rightarrow> bool) \<Rightarrow> (str \<Rightarrow> str) \<Rightarrow> str \<Rightarrow> exn + (str \<times> str)" where
  "urlsplit valid_host nfkc_form url0 =
    (case split_scheme (strip_unsafe url0) of
       (scheme, url) \<Rightarrow>
        (case (if startswith url (sep @ sep) then splitnetloc url else ([], url)) of
           (netloc, url') \<Rightarrow>
            if (91 \<in> set netloc \<and> 93 \<notin> set netloc) \<or> (93 \<in> set netloc \<and> 91 \<notin> set netloc)
            then Inl ValueError
            else if 91 \<in> set netloc \<and> 93 \<in> set netloc
                    \<and> \<not> valid_host (upto_first 93 (past_first 91 netloc))
            then Inl ValueError
            else
              (case checknetloc nfkc_form netloc of
                 Inl e \<Rightarrow> Inl e
               | Inr u \<Rightarrow> Inr (scheme, upto_first 63 (upto_first 35 url')))))"

definition uses_params :: "str list" where
  "uses_params =
    map lit ['''', ''ftp'', ''hdl'', ''prospero'', ''http'', ''imap'', ''https'', ''shttp'',
             ''rtsp'', ''rtsps'', ''rtspu'', ''sip'', ''sips'', ''mms'', ''sftp'', ''tel'']"

text \<open>
  \<open>_splitparams(url)[0]\<close>: the path up to the first semicolon of its last segment.
\<close>

definition splitparams :: "str \<Rightarrow> str" where
  "splitparams url =
    (if 47 \<in> set url then
       (let i = nat (rfind url 47) in
        if 59 \<in> set (drop i url) then take i url @ upto_first 59 (drop i url) else url)
     else upto_first 59 url)"

text \<open>\<open>urlparse(url)\<close>: the scheme and the path.\<close>

definition urlparse ::
  "(str \<Rightarrow> bool) \<Rightarrow> (str \<Rightarrow> str) \<Rightarrow> str \<Rightarrow> exn + (str \<times> str)" where
  "urlparse valid_host nfkc_form url =
    (case urlsplit valid_host nfkc_form url of
       Inl e \<Rightarrow> Inl e
     | Inr (scheme, path) \<Rightarrow>
        Inr (scheme,
             if scheme \<in> set uses_params \<and> 59 \<in> set path then splitparams path else path))"

subsection \<open>\<open>mimetypes\<close>\<close>

text \<open>
  The module's database: the suffix aliases (\<open>.tgz\<close> for \<open>.tar.gz\<close>), the encoding
  suffixes (\<open>.gz\<close>) and the strict table from extension to type. What the library and the
  system's files put into it is not this program's; \<open>add_type\<close> is how the program
  changes it.
\<close>

record mimetypes_db =
  suffix_map :: "str \<rightharpoonup> str"
  encodings_map :: "str \<rightharpoonup> str"
  types_map :: "str \<rightharpoonup> str"

definition add_type :: "str \<Rightarrow> str \<Rightarrow> mimetypes_db \<Rightarrow> mimetypes_db" where
  "add_type ty ext db = db\<lparr>types_map := (types_map db)(ext \<mapsto> ty)\<rparr>"

text \<open>
  The part of \<open>guess_type\<close> that follows the URL parsing, from \<open>posixpath.splitext\<close>
  on. The first argument is \<open>str.lower\<close>, whose Unicode tables are the interpreter's. The
  loop over the suffix aliases need not end for an arbitrary table: \<open>None\<close> is the call that
  never returns.
\<close>

partial_function (option) suffix_loop ::
  "(str \<Rightarrow> str) \<Rightarrow> (str \<rightharpoonup> str) \<Rightarrow> str \<Rightarrow> str \<Rightarrow> (str \<times> str) option" where
  "suffix_loop lower smap base ext =
    (case smap (lower ext) of
       None \<Rightarrow> Some (base, ext)
     | Some alias \<Rightarrow>
        suffix_loop lower smap (fst (posixpath_splitext (base @ alias)))
          (snd (posixpath_splitext (base @ alias))))"

definition guess_from_suffix ::
  "(str \<Rightarrow> str) \<Rightarrow> mimetypes_db \<Rightarrow> str \<Rightarrow> (str option \<times> str option) option" where
  "guess_from_suffix lower db url =
    (case suffix_loop lower (suffix_map db) (fst (posixpath_splitext url))
            (snd (posixpath_splitext url)) of
       None \<Rightarrow> None
     | Some (base, ext) \<Rightarrow>
        (case encodings_map db ext of
           Some encoding \<Rightarrow>
             Some (types_map db (lower (snd (posixpath_splitext base))), Some encoding)
         | None \<Rightarrow> Some (types_map db (lower ext), None)))"

text \<open>
  The branch of \<open>guess_type\<close> for the path of a \<open>data:\<close> URL. Code point 44 is the
  comma, 61 the equals sign.
\<close>

definition data_url_type :: "str \<Rightarrow> str option \<times> str option" where
  "data_url_type url =
    (if 44 \<notin> set url then (None, None)
     else
       let ty = upto_first 59 (upto_first 44 url)
       in (Some (if 61 \<in> set ty \<or> 47 \<notin> set ty then lit ''text/plain'' else ty), None))"

section \<open>The world around one connection\<close>

text \<open>
  A path names a regular file, a directory or something else, or nothing. A regular file
  carries what \<open>open(path, 'rb').read()\<close> gives: its bytes, or the \<open>OSError\<close> of a file
  the process may not read.
\<close>

datatype node = Regular "exn + bytes" | Directory | Special

definition os_path_exists :: "(str \<rightharpoonup> node) \<Rightarrow> str \<Rightarrow> bool" where
  "os_path_exists fs p = (case fs p of None \<Rightarrow> False | Some n \<Rightarrow> True)"

definition os_path_isfile :: "(str \<rightharpoonup> node) \<Rightarrow> str \<Rightarrow> bool" where
  "os_path_isfile fs p = (case fs p of Some (Regular r) \<Rightarrow> True | _ \<Rightarrow> False)"

definition os_path_isdir :: "(str \<rightharpoonup> node) \<Rightarrow> str \<Rightarrow> bool" where
  "os_path_isdir fs p = (case fs p of Some Directory \<Rightarrow> True | _ \<Rightarrow> False)"

definition read_file :: "(str \<rightharpoonup> node) \<Rightarrow> str \<Rightarrow> exn + bytes" where
  "read_file fs p = (case fs p of Some (Regular r) \<Rightarrow> r | _ \<Rightarrow> Inl OSError)"

text \<open>
  What the process sees of its surroundings while it handles one connection: the working
  directory, the file system, the \<open>mimetypes\<close> database, \<open>str.lower\<close>, the two checks
  of \<open>urlsplit\<close> that are the library's (whether \<open>_check_bracketed_host\<close> returns for a
  host, and \<open>unicodedata.normalize('NFKC', _)\<close>), and the text
  \<open>format_date_time(datetime.now().timestamp())\<close> returns.
\<close>

record environment =
  cwd :: str
  files :: "str \<rightharpoonup> node"
  mimetypes :: mimetypes_db
  str_lower :: "str \<Rightarrow> str"
  bracketed_host_valid :: "str \<Rightarrow> bool"
  nfkc :: "str \<Rightarrow> str"
  now :: str

text \<open>
  \<open>mimetypes.guess_type(url)\<close> as CPython 3.11 has it. It parses its argument as a URL
  first: \<open>urlparse\<close> may raise \<open>ValueError\<close>; a scheme of two letters or more replaces
  the argument by the URL's path, and the scheme \<open>data\<close> has a branch of its own; with no
  such scheme the argument stands as it is (\<open>posixpath.splitdrive\<close> takes nothing off).
  The result is the exception raised or the pair \<open>(type, encoding)\<close>; \<open>None\<close> is the call
  that never returns.
\<close>

definition guess_type ::
  "environment \<Rightarrow> str \<Rightarrow> (exn + (str option \<times> str option)) option" where
  "guess_type env url =
    (case urlparse (bracketed_host_valid env) (nfkc env) url of
       Inl e \<Rightarrow> Some (Inl e)
     | Inr (scheme, path) \<Rightarrow>
        if length scheme > 1 then
          (if scheme = lit ''data'' then Some (Inr (data_url_type path))
           else map_option Inr (guess_from_suffix (str_lower env) (mimetypes env) path))
        else map_option Inr (guess_from_suffix (str_lower env) (mimetypes env) url))"

text \<open>
  A connected socket: the bytes the peer has sent and the kernel holds for the next read
  (none when the peer has closed without sending), whether the connection was reset (the
  read raises), how many \<open>sendall\<close> calls the peer takes before the connection breaks
  (\<open>None\<close>: it never breaks; a broken connection stays broken), the payloads of the
  \<open>sendall\<close> calls that returned, and whether the socket is closed. What a failing
  \<open>sendall\<close> got through before it raised is not recorded.
\<close>

record client_socket =
  pending :: bytes
  reset :: bool
  send_budget :: "nat option"
  sent :: "bytes list"
  closed :: bool

definition recv :: "nat \<Rightarrow> client_socket \<Rightarrow> (exn + bytes) \<times> client_socket" where
  "recv bufsize s =
    (if reset s then (Inl OSError, s)
     else (Inr (take bufsize (pending s)), s\<lparr>pending := drop bufsize (pending s)\<rparr>))"

definition sendall :: "bytes \<Rightarrow> client_socket \<Rightarrow> (exn + unit) \<times> client_socket" where
  "sendall data s =
    (case send_budget s of
       None \<Rightarrow> (Inr (), s\<lparr>sent := sent s @ [data]\<rparr>)
     | Some 0 \<Rightarrow> (Inl OSError, s)
     | Some (Suc k) \<Rightarrow> (Inr (), s\<lparr>sent := sent s @ [data], send_budget := Some k\<rparr>))"

definition close :: "client_socket \<Rightarrow> client_socket" where
  "close s = s\<lparr>closed := True\<rparr>"

section \<open>The server: \<open>http_server.py\<close>\<close>

text \<open>
  \<open>WebServer\<close> keeps the port, the document root and the server's name; its listening
  socket is the accept loop's and is not part of a connection's handling.
  \<open>WebServer_init\<close> is \<open>__init__\<close>: \<open>None\<close> is \<open>exit(1)\<close>. The \<open>print\<close> calls write to
  the operator's terminal and are left out throughout.
\<close>

record WebServer =
  port :: int
  root :: str
  server_name :: str


text \<open>The five \<open>mimetypes.add_type\<close> calls of \<open>__main__\<close>, in their order.\<close>

definition main_add_types :: "mimetypes_db \<Rightarrow> mimetypes_db" where
  "main_add_types db =
    add_type (lit ''image/gif'') (lit ''.gif'')
      (add_type (lit ''image/png'') (lit ''.png'')
        (add_type (lit ''image/jpeg'') (lit ''.jpeg'')
          (add_type (lit ''image/jpeg'') (lit ''.jpg'')
            (add_type (lit ''text/css'') (lit ''.css'') db))))"

definition build_headers ::
  "WebServer \<Rightarrow> environment \<Rightarrow> int \<Rightarrow> str \<Rightarrow> str \<Rightarrow> nat \<Rightarrow> str" where
  "build_headers self env status_code status_message content_type content_length =
    join CRLF
      [lit ''HTTP/1.1 '' @ str_int status_code @ lit '' '' @ status_message,
       lit ''Date: '' @ now env,
       lit ''Server: '' @ server_name self,
       lit ''Content-Type: '' @ content_type,
       lit ''Content-Length: '' @ str_nat content_length,
       lit ''Connection: close'',
       CRLF]"

text \<open>
  A call that touches the socket returns the exception it raised or its value, and the
  socket as it left it.
\<close>

definition send_error ::
  "WebServer \<Rightarrow> environment \<Rightarrow> client_socket \<Rightarrow> int \<Rightarrow> str
    \<Rightarrow> (exn + unit) \<times> client_socket" where
  "send_error self env clientsocket status_code status_message =
    (case utf8_encode
            (lit ''<html><body><h1>'' @ str_int status_code @ lit '' '' @ status_message
             @ lit ''</h1></body></html>'') of
       Inl e \<Rightarrow> (Inl e, clientsocket)
     | Inr body \<Rightarrow>
        (case utf8_encode
                (build_headers self env status_code status_message (lit ''text/html'')
                   (length body)) of
           Inl e \<Rightarrow> (Inl e, clientsocket)
         | Inr response_headers \<Rightarrow>
            (case sendall response_headers clientsocket of
               (Inl e, s1) \<Rightarrow> (Inl e, s1)
             | (Inr u, s1) \<Rightarrow> sendall body s1)))"

text \<open>
  \<open>guess_type(filepath)[0] or 'application/octet-stream'\<close>: the default stands in for
  \<open>None\<close> and for the empty string.
\<close>

definition content_type_or_default :: "str option \<Rightarrow> str" where
  "content_type_or_default guessed =
    (case guessed of
       None \<Rightarrow> lit ''application/octet-stream''
     | Some t \<Rightarrow> if t = [] then lit ''application/octet-stream'' else t)"

text \<open>
  The \<open>try\<close> block of \<open>send_file\<close>, then \<open>send_file\<close> with its \<open>except\<close> clause. \<open>None\<close>
  is a \<open>guess_type\<close> call that never returns; an exception \<open>guess_type\<close> raises leaves
  the \<open>try\<close> block like any other.
\<close>

definition send_file_try ::
  "WebServer \<Rightarrow> environment \<Rightarrow> client_socket \<Rightarrow> str
    \<Rightarrow> ((exn + unit) \<times> client_socket) option" where
  "send_file_try self env clientsocket filepath =
    (case read_file (files env) filepath of
       Inl e \<Rightarrow> Some (Inl e, clientsocket)
     | Inr content \<Rightarrow>
        (case guess_type env filepath of
           None \<Rightarrow> None
         | Some (Inl e) \<Rightarrow> Some (Inl e, clientsocket)
         | Some (Inr guess) \<Rightarrow>
            (case utf8_encode
                    (build_headers self env 200 (lit ''OKEE DOKEE'')
                       (content_type_or_default (fst guess)) (length content)) of
               Inl e \<Rightarrow> Some (Inl e, clientsocket)
             | Inr response_headers \<Rightarrow>
                (case sendall response_headers clientsocket of
                   (Inl e, s1) \<Rightarrow> Some (Inl e, s1)
                 | (Inr u, s1) \<Rightarrow> Some (sendall content s1)))))"

definition send_file ::
  "WebServer \<Rightarrow> environment \<Rightarrow> client_socket \<Rightarrow> str
    \<Rightarrow> ((exn + unit) \<times> client_socket) option" where
  "send_file self env clientsocket filepath =
    (case send_file_try self env clientsocket filepath of
       None \<Rightarrow> None
     | Some (Inl e, s1) \<Rightarrow> Some (send_error self env s1 404 (lit ''File Not Found''))
     | Some (Inr u, s1) \<Rightarrow> Some (Inr u, s1))"

text \<open>
  The \<open>try\<close> block of \<open>handle_client\<close>. Unpacking \<open>request_line.split()\<close> into three
  names raises \<open>ValueError\<close> unless there are exactly three tokens.
\<close>

definition handle_client_try ::
  "WebServer \<Rightarrow> environment \<Rightarrow> client_socket \<Rightarrow> ((exn + unit) \<times> client_socket) option" where
  "handle_client_try self env clientsocket =
    (case recv 1024 clientsocket of
       (Inl e, s1) \<Rightarrow> Some (Inl e, s1)
     | (Inr data, s1) \<Rightarrow>
        (case utf8_decode data of
           None \<Rightarrow> Some (Inl UnicodeDecodeError, s1)
         | Some request_data \<Rightarrow>
            if request_data = [] then Some (Inr (), s1)
            else
              (case splitlines request_data of
                 [] \<Rightarrow> Some (Inl IndexError, s1)
               | request_line # other_lines \<Rightarrow>
                  (case split request_line of
                     [method, path, blank] \<Rightarrow>
                       if method \<noteq> lit ''GET'' then
                         Some (send_error self env s1 404 (lit ''File Not Found''))
                       else
                         (let path = (if endswith path sep then path @ lit ''index.html''
                                      else path);
                              requested_path =
                                os_path_abspath (cwd env)
                                  (os_path_join (root self) (lstrip path sep))
                          in if \<not> startswith requested_path (root self) then
                               Some (send_error self env s1 404 (lit ''File Not Found''))
                             else if os_path_exists (files env) requested_path
                                     \<and> os_path_isfile (files env) requested_path then
                               send_file self env s1 requested_path
                             else Some (send_error self env s1 404 (lit ''File Not Found'')))
                   | _ \<Rightarrow> Some (Inl ValueError, s1)))))"

text \<open>
  \<open>handle_client\<close>: \<open>except Exception\<close> swallows whatever the \<open>try\<close> block raised, and
  \<open>finally\<close> closes the socket on every way out. The result is the socket as the handler
  leaves it; \<open>None\<close> is a handler that never returns.
\<close>

definition handle_client :: "WebServer \<Rightarrow> environment \<Rightarrow> client_socket \<Rightarrow> client_socket option" where
  "handle_client self env clientsocket =
    (case handle_client_try self env clientsocket of
       None \<Rightarrow> None
     | Some (Inl e, s1) \<Rightarrow> Some (close s1)
     | Some (Inr u, s1) \<Rightarrow> Some (close s1))"

section \<open>Notions the properties are stated with\<close>

text \<open>
  The peer takes at least \<open>n\<close> more \<open>sendall\<close> calls before the connection breaks.
\<close>

definition accepts :: "nat \<Rightarrow> client_socket \<Rightarrow> bool" where
  "accepts n s = (case send_budget s of None \<Rightarrow> True | Some k \<Rightarrow> n \<le> k)"

text \<open>The body \<open>send_error\<close> builds for 404 \<open>File Not Found\<close>, as bytes.\<close>

definition not_found_body :: bytes where
  "not_found_body = blit ''<html><body><h1>404 File Not Found</h1></body></html>''"

text \<open>
  A path lies under a directory when the directory's components are the first components
  of the path: the directory itself and everything below it, and nothing beside it.
\<close>

definition path_components :: "str \<Rightarrow> str list" where
  "path_components p = filter (\<lambda>c. c \<noteq> []) (split_at 47 p)"

definition lies_under :: "str \<Rightarrow> str \<Rightarrow> bool" where
  "lies_under directory p =
    (take (length (path_components directory)) (path_components p)
     = path_components directory)"


text \<open>
  One response is a header block and a body whose length the block announces; the handler
  sends them as the payloads of two \<open>sendall\<close> calls. At most one response has been sent
  when the payloads are none, or the header block of one response alone (the connection broke
  before its body), or its header block and its body.
\<close>

definition one_response :: "WebServer \<Rightarrow> environment \<Rightarrow> bytes \<Rightarrow> bytes \<Rightarrow> bool" where
  "one_response self env hdr body =
    (\<exists>status_code status_message content_type.
       utf8_encode (build_headers self env status_code status_message content_type
                      (length body)) = Inr hdr)"

definition at_most_one_response :: "WebServer \<Rightarrow> environment \<Rightarrow> bytes list \<Rightarrow> bool" where
  "at_most_one_response self env payloads =
    (payloads = []
     \<or> (\<exists>hdr body. one_response self env hdr body
           \<and> (payloads = [hdr] \<or> payloads = [hdr, body])))"



section \<open>A concrete world\<close>

text \<open>
  A document root \<open>/srv/www\<close> with the two files of the specification's scenario, one the
  server may not read and three more, a sibling directory \<open>/srv/www2\<close>, and a \<open>mimetypes\<close> database
  with CPython's suffix and encoding tables and four entries of its type table, after
  \<open>__main__\<close> has added its own. Its file names are ASCII, so \<open>ascii_lower\<close> is its
  \<open>str.lower\<close>. Its paths begin with a single slash, so \<open>urlsplit\<close> finds no network
  location in them and asks neither for a bracketed host to be checked nor for a
  normalisation. For the two, the world accepts the bracketed host \<open>::1\<close> alone and
  leaves text as it is, as NFKC does with ASCII text.
\<close>

definition library_db :: mimetypes_db where
  "library_db =
    \<lparr>suffix_map = map_of
       [(lit ''.svgz'', lit ''.svg.gz''), (lit ''.tgz'', lit ''.tar.gz''),
        (lit ''.taz'', lit ''.tar.gz''), (lit ''.tz'', lit ''.tar.gz''),
        (lit ''.tbz2'', lit ''.tar.bz2''), (lit ''.txz'', lit ''.tar.xz'')],
     encodings_map = map_of
       [(lit ''.gz'', lit ''gzip''), (lit ''.Z'', lit ''compress''),
        (lit ''.bz2'', lit ''bzip2''), (lit ''.xz'', lit ''xz''), (lit ''.br'', lit ''br'')],
     types_map = map_of
       [(lit ''.html'', lit ''text/html''), (lit ''.js'', lit ''application/javascript''),
        (lit ''.txt'', lit ''text/plain''), (lit ''.tar'', lit ''application/x-tar'')]\<rparr>"

definition example_files :: "str \<rightharpoonup> node" where
  "example_files = map_of
     [(lit ''/srv/www'', Directory),
      (lit ''/srv/www/index.html'', Regular (Inr (blit ''<h1>Hi</h1>''))),
      (lit ''/srv/www/style.css'', Regular (Inr (blit ''h1 { color: red }''))),
      (lit ''/srv/www/locked.txt'', Regular (Inl OSError)),
      (lit ''/srv/www/notes.xyz'', Regular (Inr (blit ''x, y, z''))),
      (lit ''/srv/www/my file.txt'', Regular (Inr (blit ''mine''))),
      (lit ''/srv/www/site.css.gz'', Regular (Inr [0x1F, 0x8B, 0x08])),
      (lit ''/srv/www2'', Directory),
      (lit ''/srv/www2/index.html'', Regular (Inr (blit ''<h1>Other site</h1>''))),
      (lit ''/srv/www2/secret.txt'', Regular (Inr (blit ''top secret'')))]"

definition example_env :: environment where
  "example_env =
    \<lparr>cwd = lit ''/home/nick'', files = example_files, mimetypes = main_add_types library_db,
     str_lower = ascii_lower, bracketed_host_valid = (\<lambda>host. host = lit ''::1''),
     nfkc = (\<lambda>s. s), now = lit ''Tue, 15 Nov 1994 08:12:31 GMT''\<rparr>"

definition example_server :: WebServer where
  "example_server =
    \<lparr>port = 8080, root = lit ''/srv/www'', server_name = lit ''NicksDiscountServer/1.0''\<rparr>"

text \<open>A fresh connection on which the peer has sent \<open>data\<close> and reads whatever comes.\<close>

definition connection :: "bytes \<Rightarrow> client_socket" where
  "connection data =
    \<lparr>pending = data, reset = False, send_budget = None, sent = [], closed = False\<rparr>"

text \<open>The header block of the example server's responses, as bytes.\<close>

definition example_headers :: "string \<Rightarrow> string \<Rightarrow> string \<Rightarrow> bytes" where
  "example_headers status content_type content_length =
     blit ''HTTP/1.1 '' @ blit status @ [13, 10]
     @ blit ''Date: Tue, 15 Nov 1994 08:12:31 GMT'' @ [13, 10]
     @ blit ''Server: NicksDiscountServer/1.0'' @ [13, 10]
     @ blit ''Content-Type: '' @ blit content_type @ [13, 10]
     @ blit ''Content-Length: '' @ blit content_length @ [13, 10]
     @ blit ''Connection: close'' @ [13, 10]
     @ [13, 10]"

section \<open>Properties\<close>

subsection \<open>Auxiliary facts: the socket and the error responder\<close>

lemma sendall_accepted:
  assumes "accepts (Suc n) s"
  shows "\<exists>s'. sendall d s = (Inr (), s') \<and> sent s' = sent s @ [d] \<and> accepts n s'
           \<and> closed s' = closed s"
  using assms by (auto simp: sendall_def accepts_def split: option.splits nat.splits)

lemma sendall_twice:
  assumes "accepts 2 s"
  shows "\<exists>s1 s2. sendall d1 s = (Inr (), s1) \<and> sendall d2 s1 = (Inr (), s2)
           \<and> sent s2 = sent s @ [d1, d2] \<and> closed s2 = closed s"
proof -
  from assms have "accepts (Suc 1) s" by (simp add: numeral_2_eq_2)
  from sendall_accepted[OF this, of d1] obtain s1 where
    s1: "sendall d1 s = (Inr (), s1)" "sent s1 = sent s @ [d1]" "accepts 1 s1"
        "closed s1 = closed s" by blast
  from s1(3) have "accepts (Suc 0) s1" by simp
  from sendall_accepted[OF this, of d2] obtain s2 where
    "sendall d2 s1 = (Inr (), s2)" "sent s2 = sent s1 @ [d2]" "closed s2 = closed s1" by blast
  with s1 show ?thesis by simp
qed

lemma recv_keeps_sent:
  assumes "recv n s = (r, s1)"
  shows "sent s1 = sent s \<and> closed s1 = closed s \<and> send_budget s1 = send_budget s"
  using assms by (auto simp: recv_def split: if_splits)

lemma send_error_sends:
  assumes "utf8_encode (lit ''<html><body><h1>'' @ str_int status_code @ lit '' ''
             @ status_message @ lit ''</h1></body></html>'') = Inr body"
      and "utf8_encode (build_headers self env status_code status_message (lit ''text/html'')
             (length body)) = Inr response_headers"
      and "accepts 2 clientsocket"
  shows "\<exists>s'. send_error self env clientsocket status_code status_message = (Inr (), s')
           \<and> sent s' = sent clientsocket @ [response_headers, body]
           \<and> closed s' = closed clientsocket"
proof -
  from sendall_twice[OF assms(3), of response_headers body] obtain s1 s2 where
    "sendall response_headers clientsocket = (Inr (), s1)" "sendall body s1 = (Inr (), s2)"
    "sent s2 = sent clientsocket @ [response_headers, body]" "closed s2 = closed clientsocket"
    by blast
  then show ?thesis
    using assms(1,2) by (simp add: send_error_def)
qed

lemma not_found_body_encoded:
  "utf8_encode (lit ''<html><body><h1>'' @ str_int 404 @ lit '' '' @ lit ''File Not Found''
     @ lit ''</h1></body></html>'') = Inr not_found_body"
  by (simp add: lit_def str_int_def str_nat.simps encode_codepoint_def not_found_body_def
      blit_def)

lemma example_404_headers:
  "utf8_encode (build_headers example_server example_env 404 (lit ''File Not Found'')
     (lit ''text/html'') (length not_found_body))
   = Inr (example_headers ''404 File Not Found'' ''text/html'' ''53'')"
  by (simp add: build_headers_def example_server_def example_env_def lit_def str_int_def
      str_nat.simps encode_codepoint_def not_found_body_def blit_def CRLF_def
      example_headers_def)

subsection \<open>Auxiliary facts: evaluating the model\<close>

lemma suffix_loop_plain:
  "smap (lower ext) = None \<Longrightarrow> suffix_loop lower smap base ext = Some (base, ext)"
  by (subst suffix_loop.simps) simp

lemma suffix_loop_alias:
  "smap (lower ext) = Some alias \<Longrightarrow>
   suffix_loop lower smap base ext =
     suffix_loop lower smap (fst (posixpath_splitext (base @ alias)))
       (snd (posixpath_splitext (base @ alias)))"
  by (subst suffix_loop.simps) simp

text \<open>The equations that evaluate the model on a concrete input.\<close>

lemmas text_defs = lit_def blit_def sep_def CRLF_def cont_def is_space_def is_linebreak_def
  splitlines_def split_def endswith_def str_int_def str_nat.simps encode_codepoint_def
  ascii_lower_def

lemmas path_defs = os_path_isabs_def os_path_join_def os_path_normpath_def
  os_path_abspath_def rfind_def posixpath_splitext_def

lemmas url_defs = upto_first_def past_first_def is_ascii_alpha_def
  is_scheme_char_def strip_unsafe_def split_scheme_def splitnetloc_def checknetloc_def
  urlsplit_def uses_params_def splitparams_def urlparse_def

lemmas world_defs = os_path_exists_def os_path_isfile_def os_path_isdir_def read_file_def
  recv_def sendall_def close_def add_type_def url_defs data_url_type_def
  guess_from_suffix_def guess_type_def suffix_loop_plain suffix_loop_alias

lemmas server_defs = build_headers_def send_error_def content_type_or_default_def
  send_file_try_def send_file_def handle_client_try_def handle_client_def

lemmas example_defs = library_db_def example_files_def example_env_def
  example_server_def connection_def example_headers_def main_add_types_def
  not_found_body_def

subsection \<open>Auxiliary facts: the type table after \<open>__main__\<close>\<close>


lemma main_add_types_keeps:
  "suffix_map (main_add_types library) = suffix_map library"
  "encodings_map (main_add_types library) = encodings_map library"
  by (simp_all add: main_add_types_def add_type_def)


subsection \<open>Auxiliary facts: \<open>guess_type\<close> on a file path\<close>

text \<open>
  With no scheme of two letters or more, \<open>guess_type\<close> reads the suffix of its argument.
  A path that begins with a slash, and not with two once \<open>urlsplit\<close> has taken the tabs,
  CRs and LFs out, is parsed without an exception and has no scheme.
\<close>

lemma guess_type_no_scheme:
  assumes "urlparse (bracketed_host_valid env) (nfkc env) url = Inr (scheme, path)"
      and "length scheme \<le> 1"
  shows "guess_type env url
         = map_option Inr (guess_from_suffix (str_lower env) (mimetypes env) url)"
  using assms by (simp add: guess_type_def)

lemma urlparse_single_slash:
  assumes "startswith url sep" and "\<not> startswith (strip_unsafe url) (sep @ sep)"
  shows "\<exists>path. urlparse valid_host nfkc_form url = Inr ([], path)"
proof -
  from assms(1) obtain t where url: "url = 47 # t"
    by (cases url) (simp_all add: sep_def lit_def)
  have stripped: "strip_unsafe url = 47 # filter (\<lambda>c. c \<noteq> 9 \<and> c \<noteq> 13 \<and> c \<noteq> 10) t"
    by (simp add: url strip_unsafe_def)
  have scheme: "split_scheme (strip_unsafe url) = ([], strip_unsafe url)"
    by (simp add: stripped split_scheme_def is_ascii_alpha_def)
  have "\<exists>path. urlsplit valid_host nfkc_form url = Inr ([], path)"
    using assms(2) by (simp add: urlsplit_def scheme checknetloc_def)
  then show ?thesis
    by (auto simp: urlparse_def)
qed

lemma urlparse_absolute_no_scheme:
  assumes "startswith url sep" and "urlparse valid_host nfkc_form url = Inr (scheme, path)"
  shows "scheme = []"
proof -
  from assms(1) obtain t where url: "url = 47 # t"
    by (cases url) (simp_all add: sep_def lit_def)
  have "split_scheme (strip_unsafe url) = ([], strip_unsafe url)"
    by (simp add: url strip_unsafe_def split_scheme_def is_ascii_alpha_def)
  then show ?thesis
    using assms(2)
    by (auto simp: urlparse_def urlsplit_def split: sum.splits prod.splits if_splits)
qed

lemma guess_type_single_slash:
  assumes "startswith url sep" and "\<not> startswith (strip_unsafe url) (sep @ sep)"
  shows "guess_type env url
         = map_option Inr (guess_from_suffix (str_lower env) (mimetypes env) url)"
proof -
  from urlparse_single_slash[OF assms] obtain path where
    "urlparse (bracketed_host_valid env) (nfkc env) url = Inr ([], path)" by blast
  then show ?thesis by (rule guess_type_no_scheme) simp
qed

text \<open>
  A path that begins with two slashes has a network location, and \<open>urlsplit\<close> raises
  \<open>ValueError\<close> for one with an unmatched bracket. \<open>send_file\<close> then answers 404, though
  it has read the file.
\<close>

lemma guess_type_unmatched_bracket:
  "guess_type env (lit ''//[x/a.css'') = Some (Inl ValueError)"
  by (simp add: text_defs url_defs guess_type_def)

lemma send_file_guess_type_raises:
  assumes "read_file (files env) filepath = Inr content"
      and "guess_type env filepath = Some (Inl e)"
  shows "send_file self env clientsocket filepath
         = Some (send_error self env clientsocket 404 (lit ''File Not Found''))"
  using assms by (simp add: send_file_def send_file_try_def)

subsection \<open>Auxiliary facts: what one run of the handler sends\<close>

lemma sendall_failed:
  assumes "sendall d s = (Inl e, s')"
  shows "s' = s \<and> send_budget s = Some 0"
  using assms by (auto simp: sendall_def split: option.splits nat.splits)

lemma sendall_returned:
  assumes "sendall d s = (Inr u, s')"
  shows "sent s' = sent s @ [d] \<and> closed s' = closed s"
  using assms by (auto simp: sendall_def split: option.splits nat.splits)

lemma sendall_broken:
  assumes "send_budget s = Some 0"
  shows "sendall d s = (Inl OSError, s)"
  using assms by (simp add: sendall_def)

lemma send_error_broken:
  assumes "send_budget s = Some 0"
  shows "\<exists>e. send_error self env s status_code status_message = (Inl e, s)"
  using assms by (auto simp: send_error_def sendall_broken split: sum.splits)

lemma send_error_at_most_one:
  assumes "send_error self env s status_code status_message = (r, s')"
  shows "closed s' = closed s
         \<and> (\<exists>payloads. sent s' = sent s @ payloads \<and> at_most_one_response self env payloads)"
proof (cases "utf8_encode (lit ''<html><body><h1>'' @ str_int status_code @ lit '' ''
             @ status_message @ lit ''</h1></body></html>'')")
  case (Inl e)
  with assms have "s' = s" by (simp add: send_error_def)
  then show ?thesis by (simp add: at_most_one_response_def)
next
  case body: (Inr body)
  show ?thesis
  proof (cases "utf8_encode (build_headers self env status_code status_message
                  (lit ''text/html'') (length body))")
    case (Inl e)
    with assms body have "s' = s" by (simp add: send_error_def)
    then show ?thesis by (simp add: at_most_one_response_def)
  next
    case hdr: (Inr hdr)
    have one: "one_response self env hdr body"
      using hdr by (auto simp: one_response_def)
    obtain r1 s1 where s1: "sendall hdr s = (r1, s1)" by (cases "sendall hdr s")
    show ?thesis
    proof (cases r1)
      case (Inl e)
      with s1 sendall_failed have "s1 = s" by blast
      with assms body hdr s1 Inl have "s' = s" by (simp add: send_error_def)
      then show ?thesis by (simp add: at_most_one_response_def)
    next
      case (Inr u)
      with s1 sendall_returned have s1': "sent s1 = sent s @ [hdr]" "closed s1 = closed s"
        by blast+
      from assms body hdr s1 Inr have s2: "sendall body s1 = (r, s')"
        by (simp add: send_error_def)
      show ?thesis
      proof (cases r)
        case (Inl e)
        with s2 sendall_failed have "s' = s1" by blast
        with s1' one show ?thesis by (auto simp: at_most_one_response_def)
      next
        case (Inr u2)
        with s2 sendall_returned have "sent s' = sent s1 @ [body]" "closed s' = closed s1"
          by blast+
        with s1' one show ?thesis by (auto simp: at_most_one_response_def)
      qed
    qed
  qed
qed

lemma send_file_at_most_one:
  assumes "send_file self env s filepath = Some (r, s')"
  shows "closed s' = closed s
         \<and> (\<exists>payloads. sent s' = sent s @ payloads \<and> at_most_one_response self env payloads)"
proof (cases "read_file (files env) filepath")
  case (Inl e)
  with assms have "send_error self env s 404 (lit ''File Not Found'') = (r, s')"
    by (simp add: send_file_def send_file_try_def)
  then show ?thesis by (rule send_error_at_most_one)
next
  case content: (Inr content)
  show ?thesis
  proof (cases "guess_type env filepath")
    case None
    with assms content show ?thesis by (simp add: send_file_def send_file_try_def)
  next
    case (Some g)
    show ?thesis
    proof (cases g)
    case (Inl e)
    with assms content Some
    have "send_error self env s 404 (lit ''File Not Found'') = (r, s')"
      by (simp add: send_file_def send_file_try_def)
    then show ?thesis by (rule send_error_at_most_one)
    next
    case (Inr guess)
    with Some have guess: "guess_type env filepath = Some (Inr guess)" by simp
    show ?thesis
    proof (cases "utf8_encode (build_headers self env 200 (lit ''OKEE DOKEE'')
                    (content_type_or_default (fst guess)) (length content))")
      case (Inl e)
      with assms content guess
      have "send_error self env s 404 (lit ''File Not Found'') = (r, s')"
        by (simp add: send_file_def send_file_try_def)
      then show ?thesis by (rule send_error_at_most_one)
    next
      case hdr: (Inr hdr)
      have one: "one_response self env hdr content"
        using hdr by (auto simp: one_response_def)
      obtain r1 s1 where s1: "sendall hdr s = (r1, s1)" by (cases "sendall hdr s")
      show ?thesis
      proof (cases r1)
        case (Inl e)
        with s1 sendall_failed have "s1 = s" by blast
        with assms content guess hdr s1 Inl
        have "send_error self env s 404 (lit ''File Not Found'') = (r, s')"
          by (simp add: send_file_def send_file_try_def)
        then show ?thesis by (rule send_error_at_most_one)
      next
        case (Inr u)
        with s1 sendall_returned have s1': "sent s1 = sent s @ [hdr]" "closed s1 = closed s"
          by blast+
        obtain r2 s2 where s2: "sendall content s1 = (r2, s2)" by (cases "sendall content s1")
        show ?thesis
        proof (cases r2)
          case (Inl e)
          with s2 sendall_failed have broken: "s2 = s1" "send_budget s1 = Some 0" by blast+
          from send_error_broken[OF broken(2)] obtain e' where
            "send_error self env s1 404 (lit ''File Not Found'') = (Inl e', s1)" by blast
          with assms content guess hdr s1 Inr s2 Inl broken(1) have "s' = s1"
            by (simp add: send_file_def send_file_try_def)
          with s1' one show ?thesis by (auto simp: at_most_one_response_def)
        next
          case r2: (Inr u2)
          with s2 sendall_returned
          have "sent s2 = sent s1 @ [content]" "closed s2 = closed s1" by blast+
          moreover from assms content guess hdr s1 Inr s2 r2 have "s' = s2"
            by (simp add: send_file_def send_file_try_def)
          ultimately show ?thesis using s1' one by (auto simp: at_most_one_response_def)
        qed
      qed
    qed
    qed
  qed
qed

lemma handle_client_try_cases:
  assumes "handle_client_try self env s = Some (r, s')"
      and "recv 1024 s = (r0, s1)"
  shows "s' = s1
         \<or> send_error self env s1 404 (lit ''File Not Found'') = (r, s')
         \<or> (\<exists>p. send_file self env s1 p = Some (r, s'))"
  using assms
  by (auto simp: handle_client_try_def Let_def
      split: sum.splits option.splits list.splits if_splits)

lemma handle_client_try_at_most_one:
  assumes "handle_client_try self env s = Some (r, s')"
  shows "closed s' = closed s
         \<and> (\<exists>payloads. sent s' = sent s @ payloads \<and> at_most_one_response self env payloads)"
proof -
  obtain r0 s1 where rc: "recv 1024 s = (r0, s1)" by (cases "recv 1024 s")
  note k = recv_keeps_sent[OF rc]
  from handle_client_try_cases[OF assms rc]
  consider (nothing) "s' = s1"
    | (err) "send_error self env s1 404 (lit ''File Not Found'') = (r, s')"
    | (served) p where "send_file self env s1 p = Some (r, s')"
    by blast
  then show ?thesis
  proof cases
    case nothing
    then show ?thesis using k by (simp add: at_most_one_response_def)
  next
    case err
    from send_error_at_most_one[OF err] show ?thesis using k by simp
  next
    case served
    from send_file_at_most_one[OF served] show ?thesis using k by simp
  qed
qed

lemma handle_client_returns:
  assumes "\<And>url. guess_type env url \<noteq> None"
  shows "handle_client_try self env s \<noteq> None"
proof -
  have "send_file self env s1 p \<noteq> None" for s1 p
  proof -
    from assms[of p] obtain g where "guess_type env p = Some g"
      by auto
    then show ?thesis
      by (auto simp: send_file_def send_file_try_def split: sum.splits prod.splits)
  qed
  then show ?thesis
    by (auto simp: handle_client_try_def Let_def
        split: sum.splits option.splits list.splits if_splits prod.splits)
qed

subsection \<open>Auxiliary facts: the library's suffix aliases\<close>

lemma rfind_from_append:
  "rfind_from c i f (xs @ ys) = rfind_from c (i + int (length xs)) (rfind_from c i f xs) ys"
  by (induction xs arbitrary: i f) (simp_all add: add.assoc)

lemma rfind_from_absent:
  "c \<notin> set xs \<Longrightarrow> rfind_from c i f xs = f"
  by (induction xs arbitrary: i f) simp_all

lemma rfind_from_bounds:
  "- 1 \<le> f \<Longrightarrow> f < i \<Longrightarrow>
   - 1 \<le> rfind_from c i f xs \<and> rfind_from c i f xs < i + int (length xs)"
proof (induction xs arbitrary: i f)
  case Nil
  then show ?case by simp
next
  case (Cons x xs)
  from Cons.prems have "- 1 \<le> (if x = c then i else f)" "(if x = c then i else f) < i + 1"
    by auto
  from Cons.IH[OF this] show ?case by simp
qed

lemma skip_leading_dots_iff:
  "skip_leading_dots xs = (\<exists>c \<in> set xs. c \<noteq> 46)"
  by (induction xs) auto

lemma splitext_suffix:
  assumes "46 \<notin> set b" and "47 \<notin> set b" and "47 \<notin> set a" and "\<exists>c \<in> set a. c \<noteq> 46"
  shows "posixpath_splitext (base @ a @ 46 # b) = (base @ a, 46 # b)"
proof -
  let ?p = "base @ a @ 46 # b"
  let ?n = "int (length base) + int (length a)"
  have dot: "rfind ?p 46 = ?n"
  proof -
    have "rfind ?p 46 = rfind_from 46 0 (- 1) ((base @ a) @ 46 # b)"
      by (simp add: rfind_def)
    also have "\<dots> = rfind_from 46 (?n + 1) ?n b"
      by (subst rfind_from_append) simp
    also have "\<dots> = ?n" using assms(1) by (rule rfind_from_absent)
    finally show ?thesis .
  qed
  have sep_eq: "rfind ?p 47 = rfind base 47"
  proof -
    have "47 \<notin> set (a @ 46 # b)" using assms(2,3) by simp
    then show ?thesis
      unfolding rfind_def by (subst rfind_from_append) (rule rfind_from_absent)
  qed
  have bnd: "- 1 \<le> rfind base 47" "rfind base 47 < int (length base)"
    using rfind_from_bounds[of "- 1" 0 47 base] by (simp_all add: rfind_def)
  define k where "k = nat (rfind base 47 + 1)"
  have k: "k \<le> length base" "int k = rfind base 47 + 1"
    using bnd by (simp_all add: k_def)
  have slice: "take (nat (?n - (rfind base 47 + 1))) (drop k ?p) = drop k base @ a"
  proof -
    have "nat (?n - (rfind base 47 + 1)) = length (drop k base @ a)"
      using k by simp
    moreover have "drop k ?p = (drop k base @ a) @ 46 # b"
      using k(1) by simp
    ultimately show ?thesis by (metis append_eq_conv_conj)
  qed
  have "skip_leading_dots (drop k base @ a)"
    using assms(4) by (auto simp: skip_leading_dots_iff)
  moreover have "rfind base 47 < ?n" using bnd by simp
  moreover have "take (nat ?n) ?p = base @ a" "drop (nat ?n) ?p = 46 # b"
    by (simp_all add: nat_add_distrib)
  ultimately show ?thesis
    using dot sep_eq slice
    by (simp add: posixpath_splitext_def Let_def k_def)
qed

lemma library_alias:
  assumes "suffix_map library_db k = Some alias"
  shows "alias = lit ''.svg.gz'' \<or> alias = lit ''.tar.gz'' \<or> alias = lit ''.tar.bz2''
         \<or> alias = lit ''.tar.xz''"
  using assms by (auto simp: library_db_def split: if_splits)

lemma library_alias_splitext:
  "posixpath_splitext (base @ lit ''.svg.gz'') = (base @ lit ''.svg'', lit ''.gz'')"
  "posixpath_splitext (base @ lit ''.tar.gz'') = (base @ lit ''.tar'', lit ''.gz'')"
  "posixpath_splitext (base @ lit ''.tar.bz2'') = (base @ lit ''.tar'', lit ''.bz2'')"
  "posixpath_splitext (base @ lit ''.tar.xz'') = (base @ lit ''.tar'', lit ''.xz'')"
  using splitext_suffix[of "lit ''gz''" "lit ''.svg''" base]
    splitext_suffix[of "lit ''gz''" "lit ''.tar''" base]
    splitext_suffix[of "lit ''bz2''" "lit ''.tar''" base]
    splitext_suffix[of "lit ''xz''" "lit ''.tar''" base]
  by (simp_all add: lit_def)

lemma library_suffix_loop_returns:
  "suffix_loop ascii_lower (suffix_map library_db) base ext \<noteq> None"
proof (cases "suffix_map library_db (ascii_lower ext)")
  case None
  then show ?thesis by (simp add: suffix_loop_plain)
next
  case (Some al)
  have plain: "suffix_map library_db (ascii_lower (lit ''.gz'')) = None"
    "suffix_map library_db (ascii_lower (lit ''.bz2'')) = None"
    "suffix_map library_db (ascii_lower (lit ''.xz'')) = None"
    by (simp_all add: library_db_def ascii_lower_def lit_def)
  have step: "suffix_loop ascii_lower (suffix_map library_db) base ext =
      suffix_loop ascii_lower (suffix_map library_db) (fst (posixpath_splitext (base @ al)))
        (snd (posixpath_splitext (base @ al)))"
    using Some by (rule suffix_loop_alias)
  from library_alias[OF Some] show ?thesis
    by (auto simp: step library_alias_splitext suffix_loop_plain plain)
qed

lemma example_guess_from_suffix_returns:
  "guess_from_suffix ascii_lower (main_add_types library_db) url \<noteq> None"
proof -
  have "suffix_map (main_add_types library_db) = suffix_map library_db"
    by (simp add: main_add_types_keeps)
  then show ?thesis
    using library_suffix_loop_returns
    by (auto simp: guess_from_suffix_def split: option.splits)
qed

lemma example_guess_type_returns:
  "guess_type example_env url \<noteq> None"
proof -
  have "str_lower example_env = ascii_lower"
    "mimetypes example_env = main_add_types library_db"
    by (simp_all add: example_env_def)
  then show ?thesis
    using example_guess_from_suffix_returns
    by (auto simp: guess_type_def split: sum.splits prod.splits)
qed

subsection \<open>Auxiliary facts: the request line\<close>





subsection \<open>Auxiliary facts: splitting and joining paths\<close>








subsection \<open>Auxiliary facts: normalised paths\<close>









subsection \<open>Auxiliary facts: resolving a relative path under the root\<close>




subsection \<open>The header block\<close>

text \<open>
  Claim C8. The header block \<open>build_headers\<close> returns is, in this order, the status line
  \<open>HTTP/1.1 <code> <message>\<close>, \<open>Date\<close>, \<open>Server\<close>, \<open>Content-Type\<close>, \<open>Content-Length\<close>,
  \<open>Connection: close\<close> and an empty line, each ended by CR LF, and nothing else.
  \<open>send_error\<close> and \<open>send_file\<close> send no header block but this one.
\<close>

theorem header_block_layout:
  "build_headers self env status_code status_message content_type content_length =
     lit ''HTTP/1.1 '' @ str_int status_code @ lit '' '' @ status_message @ CRLF
     @ lit ''Date: '' @ now env @ CRLF
     @ lit ''Server: '' @ server_name self @ CRLF
     @ lit ''Content-Type: '' @ content_type @ CRLF
     @ lit ''Content-Length: '' @ str_nat content_length @ CRLF
     @ lit ''Connection: close'' @ CRLF
     @ CRLF"
  by (simp add: build_headers_def)

subsection \<open>The error responder\<close>

text \<open>
  Claim C9. For every status code and message, \<open>send_error\<close> sends the header block
  for that status, whose \<open>Content-Length\<close> is the byte length of the body, and then the
  body, which is the UTF-8 encoding of
  \<open><html><body><h1><code> <message></h1></body></html>\<close>. (The connection takes the two
  \<open>sendall\<close> calls, and the two texts can be encoded.)
\<close>

theorem send_error_response:
  assumes "utf8_encode (lit ''<html><body><h1>'' @ str_int status_code @ lit '' ''
             @ status_message @ lit ''</h1></body></html>'') = Inr body"
      and "utf8_encode (build_headers self env status_code status_message (lit ''text/html'')
             (length body)) = Inr response_headers"
      and "accepts 2 clientsocket"
  shows "\<exists>s'. send_error self env clientsocket status_code status_message = (Inr (), s')
           \<and> sent s' = sent clientsocket @ [response_headers, body]"
  using send_error_sends[OF assms] by blast

theorem send_error_response_witness:
  "\<exists>s'. send_error example_server example_env (connection []) 404 (lit ''File Not Found'')
           = (Inr (), s')
     \<and> sent s' = [example_headers ''404 File Not Found'' ''text/html'' ''53'',
                  blit ''<html><body><h1>404 File Not Found</h1></body></html>'']"
proof -
  have "accepts 2 (connection [])"
    by (simp add: accepts_def connection_def)
  from send_error_response[OF not_found_body_encoded example_404_headers this]
  show ?thesis by (simp add: connection_def not_found_body_def)
qed

subsection \<open>Requests that get no answer\<close>

text \<open>
  Claim C5. When the single read of at most 1024 bytes yields no data, and when the first
  line of the request does not split into exactly three whitespace-separated tokens, the
  handler sends nothing and closes the connection.
\<close>

theorem unparseable_request_silent:
  assumes "recv 1024 clientsocket = (Inr data, s1)"
      and "utf8_decode data = Some request_data"
      and "request_data = [] \<or>
           (splitlines request_data = request_line # other_lines
            \<and> length (split request_line) \<noteq> 3)"
  shows "\<exists>s'. handle_client self env clientsocket = Some s'
           \<and> sent s' = sent clientsocket \<and> closed s'"
proof -
  have "handle_client_try self env clientsocket = Some (Inr (), s1)
        \<or> handle_client_try self env clientsocket = Some (Inl ValueError, s1)"
    using assms by (auto simp: handle_client_try_def split: list.splits)
  then show ?thesis
    using recv_keeps_sent[OF assms(1)] by (auto simp: handle_client_def close_def)
qed

theorem unparseable_request_silent_witness:
  "(\<exists>s'. handle_client example_server example_env (connection []) = Some s'
          \<and> sent s' = [] \<and> closed s')
   \<and> (\<exists>s'. handle_client example_server example_env
             (connection (blit ''GET /index.html'' @ [13, 10])) = Some s'
          \<and> sent s' = [] \<and> closed s')"
proof -
  have a: "recv 1024 (connection []) = (Inr [], connection [])"
    by (simp add: recv_def connection_def)
  have b: "recv 1024 (connection (blit ''GET /index.html'' @ [13, 10]))
           = (Inr (blit ''GET /index.html'' @ [13, 10]), connection [])"
    by (simp add: recv_def connection_def blit_def)
  have c: "utf8_decode (blit ''GET /index.html'' @ [13, 10])
           = Some (lit ''GET /index.html'' @ CRLF)"
    by (simp add: blit_def lit_def CRLF_def)
  have d: "splitlines (lit ''GET /index.html'' @ CRLF) = lit ''GET /index.html'' # []
           \<and> length (split (lit ''GET /index.html'')) \<noteq> 3"
    by (simp add: splitlines_def split_def lit_def CRLF_def is_linebreak_def is_space_def)
  have e: "utf8_decode [] = Some []" by simp
  show ?thesis
    using unparseable_request_silent[OF a e, of "[]" "[]" example_server example_env]
      unparseable_request_silent[OF b c, of "lit ''GET /index.html''" "[]" example_server
        example_env] d
    by (simp add: connection_def)
qed

text \<open>
  Claim C10. When the chunk the handler has read is not valid UTF-8, the handler sends
  nothing and closes the connection.
\<close>

theorem undecodable_request_silent:
  assumes "recv 1024 clientsocket = (Inr data, s1)"
      and "utf8_decode data = None"
  shows "\<exists>s'. handle_client self env clientsocket = Some s'
           \<and> sent s' = sent clientsocket \<and> closed s'"
proof -
  have "handle_client_try self env clientsocket = Some (Inl UnicodeDecodeError, s1)"
    using assms by (simp add: handle_client_try_def)
  then show ?thesis
    using recv_keeps_sent[OF assms(1)] by (simp add: handle_client_def close_def)
qed

theorem undecodable_request_silent_witness:
  "\<exists>s'. handle_client example_server example_env
           (connection (blit ''GET /'' @ [0xFF] @ blit '' HTTP/1.1'' @ [13, 10])) = Some s'
        \<and> sent s' = [] \<and> closed s'"
proof -
  have a: "recv 1024 (connection (blit ''GET /'' @ [0xFF] @ blit '' HTTP/1.1'' @ [13, 10]))
           = (Inr (blit ''GET /'' @ [0xFF] @ blit '' HTTP/1.1'' @ [13, 10]), connection [])"
    by (simp add: recv_def connection_def blit_def)
  have b: "utf8_decode (blit ''GET /'' @ [0xFF] @ blit '' HTTP/1.1'' @ [13, 10]) = None"
    by (simp add: blit_def)
  show ?thesis
    using undecodable_request_silent[OF a b, of example_server example_env]
    by (simp add: connection_def)
qed

subsection \<open>Methods other than GET\<close>

text \<open>
  Claim C3. When the first line of the request splits into three tokens and the first
  is not exactly \<open>GET\<close>, the handler answers with the 404 \<open>File Not Found\<close> response (its
  header block, then its body), sends nothing else and closes the connection. (The
  connection takes the two \<open>sendall\<close> calls.)
\<close>

theorem non_get_method_404:
  assumes "recv 1024 clientsocket = (Inr data, s1)"
      and "utf8_decode data = Some request_data"
      and "splitlines request_data = request_line # other_lines"
      and "split request_line = [method, path, blank]"
      and "method \<noteq> lit ''GET''"
      and "utf8_encode (build_headers self env 404 (lit ''File Not Found'') (lit ''text/html'')
             (length not_found_body)) = Inr response_headers"
      and "accepts 2 clientsocket"
  shows "\<exists>s'. handle_client self env clientsocket = Some s'
           \<and> sent s' = sent clientsocket @ [response_headers, not_found_body] \<and> closed s'"
proof -
  have ne: "request_data \<noteq> []"
    using assms(3) by (auto simp: splitlines_def)
  have acc: "accepts 2 s1"
    using recv_keeps_sent[OF assms(1)] assms(7) by (simp add: accepts_def)
  from send_error_sends[OF not_found_body_encoded assms(6) acc] obtain s2 where
    s2: "send_error self env s1 404 (lit ''File Not Found'') = (Inr (), s2)"
        "sent s2 = sent s1 @ [response_headers, not_found_body]" by blast
  have "handle_client_try self env clientsocket = Some (Inr (), s2)"
    using assms(1-5) ne s2(1) by (simp add: handle_client_try_def)
  then show ?thesis
    using s2(2) recv_keeps_sent[OF assms(1)] by (simp add: handle_client_def close_def)
qed

theorem non_get_method_404_witness:
  "\<exists>s'. handle_client example_server example_env
           (connection (blit ''POST /index.html HTTP/1.1'' @ [13, 10, 13, 10])) = Some s'
        \<and> sent s' = [example_headers ''404 File Not Found'' ''text/html'' ''53'',
                     blit ''<html><body><h1>404 File Not Found</h1></body></html>'']
        \<and> closed s'"
proof -
  let ?req = "blit ''POST /index.html HTTP/1.1'' @ [13, 10, 13, 10]"
  have a: "recv 1024 (connection ?req) = (Inr ?req, connection [])"
    by (simp add: recv_def connection_def blit_def)
  have b: "utf8_decode ?req = Some (lit ''POST /index.html HTTP/1.1'' @ CRLF @ CRLF)"
    by (simp add: blit_def lit_def CRLF_def)
  have c: "splitlines (lit ''POST /index.html HTTP/1.1'' @ CRLF @ CRLF)
           = lit ''POST /index.html HTTP/1.1'' # [[]]"
    by (simp add: splitlines_def lit_def CRLF_def is_linebreak_def)
  have d: "split (lit ''POST /index.html HTTP/1.1'')
           = [lit ''POST'', lit ''/index.html'', lit ''HTTP/1.1'']"
    by (simp add: split_def lit_def is_space_def)
  have e: "lit ''POST'' \<noteq> lit ''GET''" by (simp add: lit_def)
  have f: "accepts 2 (connection ?req)" by (simp add: accepts_def connection_def)
  show ?thesis
    using non_get_method_404[OF a b c d e example_404_headers f]
    by (simp add: connection_def not_found_body_def)
qed

subsection \<open>Confinement to the document root\<close>

text \<open>
  Claim C1. A request target with \<open>..\<close> segments whose normalised path lies outside the
  document root must get 404 and never the file's content. The handler compares strings:
  \<open>/srv/www2/secret.txt\<close> starts with \<open>/srv/www\<close>. With the document root \<open>/srv/www\<close>
  the request \<open>GET /../www2/secret.txt HTTP/1.1\<close> resolves to that path, which does not
  lie under the root, and the handler answers 200 with the file's content.
\<close>

theorem sibling_directory_file_served:
  "os_path_abspath (cwd example_env)
     (os_path_join (root example_server) (lstrip (lit ''/../www2/secret.txt'') sep))
     = lit ''/srv/www2/secret.txt''
   \<and> \<not> lies_under (root example_server) (lit ''/srv/www2/secret.txt'')
   \<and> map_option sent
        (handle_client example_server example_env
           (connection (blit ''GET /../www2/secret.txt HTTP/1.1'' @ [13, 10, 13, 10])))
      = Some [example_headers ''200 OKEE DOKEE'' ''text/plain'' ''10'', blit ''top secret'']"
  by (simp add: text_defs path_defs world_defs server_defs example_defs lies_under_def
      path_components_def)

subsection \<open>Directory requests\<close>

text \<open>
  Claim C6. A GET target that ends with a slash has \<open>index.html\<close> appended; that file
  is served with 200 if it exists under the root, and the answer is 404 otherwise. The
  string comparison of Claim C1 breaks the second half: with the document root
  \<open>/srv/www\<close> the request \<open>GET /../www2/ HTTP/1.1\<close> resolves to
  \<open>/srv/www2/index.html\<close>, which does not lie under the root, and the handler answers
  200 with that file's content.
\<close>

theorem sibling_directory_index_served:
  "os_path_abspath (cwd example_env)
     (os_path_join (root example_server)
        (lstrip (lit ''/../www2/'' @ lit ''index.html'') sep))
     = lit ''/srv/www2/index.html''
   \<and> \<not> lies_under (root example_server) (lit ''/srv/www2/index.html'')
   \<and> map_option sent
        (handle_client example_server example_env
           (connection (blit ''GET /../www2/ HTTP/1.1'' @ [13, 10, 13, 10])))
      = Some [example_headers ''200 OKEE DOKEE'' ''text/html'' ''19'',
              blit ''<h1>Other site</h1>'']"
  by (simp add: text_defs path_defs world_defs server_defs example_defs lies_under_def
      path_components_def)

subsection \<open>The content type\<close>




subsection \<open>One connection, at most one response, then closed\<close>

text \<open>
  Claim C4. Whatever happens while a connection is handled (the read fails, the request
  cannot be decoded or parsed, the file cannot be read, a send fails, or all goes well),
  the handler returns with the socket closed, and what it has sent on the connection is at
  most one response. The handler returns provided the library's \<open>guess_type\<close> does, with
  a guess or with an exception; its loop is the only one on the handler's way.
\<close>

theorem closed_after_at_most_one_response:
  assumes "\<And>url. guess_type env url \<noteq> None"
  shows "\<exists>s'. handle_client self env clientsocket = Some s' \<and> closed s'
           \<and> (\<exists>payloads. sent s' = sent clientsocket @ payloads
                 \<and> at_most_one_response self env payloads)"
proof -
  from handle_client_returns[OF assms] obtain r s1 where
    t: "handle_client_try self env clientsocket = Some (r, s1)" by fastforce
  from handle_client_try_at_most_one[OF t] obtain payloads where
    "sent s1 = sent clientsocket @ payloads" "at_most_one_response self env payloads" by blast
  then show ?thesis
    using t by (cases r) (auto simp: handle_client_def close_def)
qed

theorem closed_after_at_most_one_response_witness:
  "\<exists>s'. handle_client example_server example_env
           \<lparr>pending = blit ''GET /index.html HTTP/1.1'' @ [13, 10, 13, 10], reset = False,
            send_budget = Some 1, sent = [], closed = False\<rparr> = Some s'
        \<and> closed s'
        \<and> (\<exists>payloads. sent s' = payloads
              \<and> at_most_one_response example_server example_env payloads)"
  using closed_after_at_most_one_response[of example_env example_server
      "\<lparr>pending = blit ''GET /index.html HTTP/1.1'' @ [13, 10, 13, 10], reset = False,
        send_budget = Some 1, sent = [], closed = False\<rparr>", OF example_guess_type_returns]
  by simp

subsection \<open>Serving a file\<close>




end
